theory Spec2Isabelle
  imports Complex_Main "HOL-Library.AList" "HOL-Library.Multiset"
begin

section \<open>Python values, exceptions and built-ins\<close>

text \<open>
  Exceptions of the source are values. A function that can raise returns
  \<open>exn + 'a\<close>, with \<open>Inl\<close> the exception.
\<close>

datatype exn = KeyError | ValueError | OverflowError | ZeroDivisionError | ConnectionError string

text \<open>
  Python's floats are IEEE doubles, and their operations are built-ins of the language,
  not code of the repository. The type of floats is the type parameter \<open>'f\<close>, and the
  built-ins the source uses are taken as parameters: every theorem holds for whatever
  these operations compute (rounding, inf and nan included).
  \<^item> \<open>float_str s\<close> is \<open>float(s)\<close> and \<open>int_str s\<close> is \<open>int(s)\<close> on a string;
    \<open>None\<close> is where the built-in raises ValueError;
  \<^item> \<open>fzero\<close> is the literal \<open>0.0\<close>; \<open>fadd\<close>, \<open>fsub\<close>, \<open>fmul\<close> are \<open>+\<close>, \<open>-\<close>, \<open>*\<close>
    on floats;
  \<^item> \<open>flt a b\<close> is \<open>a < b\<close>, \<open>fge0 a\<close> is \<open>a >= 0\<close>, \<open>feq0 a\<close> is \<open>a == 0\<close>;
  \<^item> \<open>int_truediv a b\<close> is \<open>a / b\<close> on two ints with \<open>b\<close> non-zero;
  \<^item> \<open>float_int i\<close> is the float of the int \<open>i\<close>, \<open>int_float a\<close> is \<open>int(a)\<close> on a float
    (it raises on nan and inf), \<open>fle1 a\<close> is \<open>a <= 1\<close>.
\<close>

record 'f builtins =
  float_str :: "string \<Rightarrow> 'f option"
  int_str :: "string \<Rightarrow> int option"
  fzero :: "'f"
  fadd :: "'f \<Rightarrow> 'f \<Rightarrow> 'f"
  fsub :: "'f \<Rightarrow> 'f \<Rightarrow> 'f"
  fmul :: "'f \<Rightarrow> 'f \<Rightarrow> 'f"
  flt :: "'f \<Rightarrow> 'f \<Rightarrow> bool"
  fge0 :: "'f \<Rightarrow> bool"
  feq0 :: "'f \<Rightarrow> bool"
  int_truediv :: "int \<Rightarrow> int \<Rightarrow> 'f"
  float_int :: "int \<Rightarrow> 'f"
  int_float :: "'f \<Rightarrow> exn + int"
  fle1 :: "'f \<Rightarrow> bool"

text \<open>\<open>d[k]\<close> on a decoded JSON object: a missing key raises KeyError.\<close>

definition subscript :: "'a option \<Rightarrow> exn + 'a" where
  "subscript f = (case f of None \<Rightarrow> Inl KeyError | Some v \<Rightarrow> Inr v)"

definition py_float_str :: "'f builtins \<Rightarrow> string \<Rightarrow> exn + 'f" where
  "py_float_str B s = (case float_str B s of None \<Rightarrow> Inl ValueError | Some r \<Rightarrow> Inr r)"

definition py_int_str :: "'f builtins \<Rightarrow> string \<Rightarrow> exn + int" where
  "py_int_str B s = (case int_str B s of None \<Rightarrow> Inl ValueError | Some i \<Rightarrow> Inr i)"

text \<open>\<open>a / b\<close> on Python ints (true division): a zero divisor raises.\<close>

definition py_truediv :: "'f builtins \<Rightarrow> int \<Rightarrow> int \<Rightarrow> exn + 'f" where
  "py_truediv B a b = (if b = 0 then Inl ZeroDivisionError else Inr (int_truediv B a b))"

text \<open>
  \<open>min(a, b)\<close> keeps \<open>a\<close> unless \<open>b < a\<close>; \<open>max(a, b)\<close> keeps \<open>a\<close> unless \<open>b > a\<close>.
\<close>

definition py_min :: "'f builtins \<Rightarrow> 'f \<Rightarrow> 'f \<Rightarrow> 'f" where
  "py_min B a b = (if flt B b a then b else a)"

definition py_max :: "'f builtins \<Rightarrow> 'f \<Rightarrow> 'f \<Rightarrow> 'f" where
  "py_max B a b = (if flt B a b then b else a)"

text \<open>\<open>any(p(x) for x in xs)\<close>: stops at the first true element; a raise inside stops it too.\<close>

fun py_any :: "('a \<Rightarrow> exn + bool) \<Rightarrow> 'a list \<Rightarrow> exn + bool" where
  "py_any p [] = Inr False"
| "py_any p (x # xs) =
     (case p x of Inl e \<Rightarrow> Inl e | Inr True \<Rightarrow> Inr True | Inr False \<Rightarrow> py_any p xs)"

text \<open>\<open>(x for x in xs if p(x))\<close>, consumed whole.\<close>

fun py_filter :: "('a \<Rightarrow> exn + bool) \<Rightarrow> 'a list \<Rightarrow> exn + 'a list" where
  "py_filter p [] = Inr []"
| "py_filter p (x # xs) =
     (case p x of Inl e \<Rightarrow> Inl e
      | Inr b \<Rightarrow> (case py_filter p xs of Inl e \<Rightarrow> Inl e
                  | Inr ys \<Rightarrow> Inr (if b then x # ys else ys)))"

fun py_map :: "('a \<Rightarrow> exn + 'b) \<Rightarrow> 'a list \<Rightarrow> exn + 'b list" where
  "py_map f [] = Inr []"
| "py_map f (x # xs) =
     (case f x of Inl e \<Rightarrow> Inl e
      | Inr y \<Rightarrow> (case py_map f xs of Inl e \<Rightarrow> Inl e | Inr ys \<Rightarrow> Inr (y # ys)))"

text \<open>
  \<open>sorted(xs, key=k)\<close>: the key of every element is computed first, then the elements are
  sorted by key with a stable sort.
\<close>

definition py_sorted :: "('a \<Rightarrow> exn + int) \<Rightarrow> 'a list \<Rightarrow> exn + 'a list" where
  "py_sorted k xs =
     (case py_map k xs of Inl e \<Rightarrow> Inl e
      | Inr ks \<Rightarrow> Inr (map snd (sort_key fst (zip ks xs))))"

section \<open>Wire messages\<close>

text \<open>
  A decoded stream message is a JSON object. Every field the engines read is optional
  (the key may be absent) and, when present, has the type of the exchange's schema:
  strings for symbol, category, side, times, prices and quantities, a boolean for the
  maker flag.
\<close>

record wire_ev =
  w_symbol :: "string option"
  w_category :: "string option"

record exec_ev = wire_ev +
  e_execTime :: "string option"
  e_side :: "string option"
  e_execPrice :: "string option"
  e_execQty :: "string option"
  e_isMaker :: "bool option"

record 'ev message =
  m_topic :: "string option"
  m_data :: "'ev list option"
  m_success :: "bool option"

text \<open>\<open>e["symbol"] == symbol and e["category"] == category\<close>, with its short circuit.\<close>

definition tracked :: "string \<Rightarrow> string \<Rightarrow> 'a wire_ev_scheme \<Rightarrow> exn + bool" where
  "tracked symbol category e =
     (case subscript (w_symbol e) of Inl x \<Rightarrow> Inl x
      | Inr s \<Rightarrow>
          if s = symbol
          then (case subscript (w_category e) of Inl x \<Rightarrow> Inl x | Inr c \<Rightarrow> Inr (c = category))
          else Inr False)"

text \<open>
  The handler of a failed acknowledgement, shared by the stream handlers:
  \<open>if "success" in msg.keys(): if not msg["success"]: raise ConnectionError(text)\<close>.
\<close>

definition on_failure :: "'ev message \<Rightarrow> string \<Rightarrow> exn option" where
  "on_failure msg text =
     (case m_success msg of None \<Rightarrow> None
      | Some ok \<Rightarrow> if \<not> ok then Some (ConnectionError text) else None)"

section \<open>SessionAcc: FIFO accounting\<close>

record 'f fill =
  price :: "'f"
  qty :: "'f"
  isMaker :: bool

record 'f sessionacc =
  sa_symbol :: string
  sa_category :: string
  sa_maker :: "'f"
  sa_taker :: "'f"
  sa_buys :: "'f fill list"
  sa_sells :: "'f fill list"
  sa_wins :: int
  sa_n_matched :: int
  sa_topic :: string
  sa_pnl :: "'f"
  sa_max_pnl :: "'f"
  sa_drawdown :: "'f"

definition SessionAcc_init ::
  "'f builtins \<Rightarrow> string \<Rightarrow> string \<Rightarrow> 'f \<Rightarrow> 'f \<Rightarrow> 'f sessionacc" where
  "SessionAcc_init B symbol category maker taker =
     \<lparr> sa_symbol = symbol, sa_category = category, sa_maker = maker, sa_taker = taker,
       sa_buys = [], sa_sells = [], sa_wins = 0, sa_n_matched = 0,
       sa_topic = ''execution.fast.'' @ category,
       sa_pnl = fzero B, sa_max_pnl = fzero B, sa_drawdown = fzero B \<rparr>"

text \<open>The property \<open>win_rate\<close>: \<open>Inr None\<close> is Python's \<open>None\<close>.\<close>

definition win_rate :: "'f builtins \<Rightarrow> 'f sessionacc \<Rightarrow> exn + 'f option" where
  "win_rate B st =
     (case py_truediv B (sa_wins st) (sa_n_matched st) of
        Inl ZeroDivisionError \<Rightarrow> Inr None
      | Inl e \<Rightarrow> Inl e
      | Inr r \<Rightarrow> Inr (Some r))"

text \<open>
  One iteration of the body of \<open>while self._buys and self._sells\<close>. The loop only
  enters it with both queues non-empty; on other states it is the identity.
\<close>

definition match_step :: "'f builtins \<Rightarrow> 'f sessionacc \<Rightarrow> 'f sessionacc" where
  "match_step B st =
     (case (sa_buys st, sa_sells st) of
        (b # bs, s # ss) \<Rightarrow>
          let Q = py_min B (qty b) (qty s);
              vb = fmul B Q (price b);
              vs = fmul B Q (price s);
              cb = (if isMaker b then fmul B vb (sa_maker st) else fmul B vb (sa_taker st));
              cs = (if isMaker s then fmul B vs (sa_maker st) else fmul B vs (sa_taker st));
              net_profit = fsub B (fsub B (fsub B vs vb) cb) cs;
              pnl' = fadd B (sa_pnl st) net_profit;
              wins' = (if fge0 B net_profit then sa_wins st + 1 else sa_wins st);
              buys' = (if feq0 B (fsub B (qty b) Q) then bs
                       else b\<lparr>qty := fsub B (qty b) Q\<rparr> # bs);
              sells' = (if feq0 B (fsub B (qty s) Q) then ss
                        else s\<lparr>qty := fsub B (qty s) Q\<rparr> # ss);
              max_pnl' = py_max B (sa_max_pnl st) pnl'
          in st\<lparr> sa_n_matched := sa_n_matched st + 1, sa_pnl := pnl', sa_wins := wins',
                 sa_buys := buys', sa_sells := sells', sa_max_pnl := max_pnl',
                 sa_drawdown := py_max B (sa_drawdown st) (fsub B max_pnl' pnl') \<rparr>
      | _ \<Rightarrow> st)"

text \<open>
  The loop itself. A head is evicted only when its remaining quantity compares equal to
  zero, which the float operations need not give (inf - inf is nan): \<open>None\<close> is the
  loop that never exits.
\<close>

partial_function (option) match_loop :: "'f builtins \<Rightarrow> 'f sessionacc \<Rightarrow> 'f sessionacc option" where
  "match_loop B st =
     (if sa_buys st \<noteq> [] \<and> sa_sells st \<noteq> [] then match_loop B (match_step B st)
      else Some st)"

text \<open>The dictionary built for one execution, and the queue it is appended to.\<close>

definition to_fill :: "'f builtins \<Rightarrow> exec_ev \<Rightarrow> exn + (bool \<times> 'f fill)" where
  "to_fill B e =
     (case subscript (e_side e) of Inl x \<Rightarrow> Inl x
      | Inr side \<Rightarrow>
     (case subscript (e_execPrice e) of Inl x \<Rightarrow> Inl x
      | Inr ps \<Rightarrow>
     (case py_float_str B ps of Inl x \<Rightarrow> Inl x
      | Inr p \<Rightarrow>
     (case subscript (e_execQty e) of Inl x \<Rightarrow> Inl x
      | Inr qs \<Rightarrow>
     (case py_float_str B qs of Inl x \<Rightarrow> Inl x
      | Inr q \<Rightarrow>
     (case subscript (e_isMaker e) of Inl x \<Rightarrow> Inl x
      | Inr m \<Rightarrow> Inr (side = ''Buy'', \<lparr> price = p, qty = q, isMaker = m \<rparr>)))))))"

text \<open>
  \<open>for e in data: (buys.append if e["side"] == "Buy" else sells.append)({...})\<close>. A raise
  in the middle leaves the fills appended so far in the queues.
\<close>

fun append_fills ::
  "'f builtins \<Rightarrow> 'f sessionacc \<Rightarrow> exec_ev list \<Rightarrow> 'f sessionacc \<times> exn option" where
  "append_fills B st [] = (st, None)"
| "append_fills B st (e # es) =
     (case to_fill B e of
        Inl x \<Rightarrow> (st, Some x)
      | Inr (is_buy, f) \<Rightarrow>
          append_fills B
            (if is_buy then st\<lparr>sa_buys := sa_buys st @ [f]\<rparr>
             else st\<lparr>sa_sells := sa_sells st @ [f]\<rparr>) es)"

definition exec_key :: "'f builtins \<Rightarrow> exec_ev \<Rightarrow> exn + int" where
  "exec_key B e =
     (case subscript (e_execTime e) of Inl x \<Rightarrow> Inl x | Inr s \<Rightarrow> py_int_str B s)"

text \<open>
  The body of the \<open>try\<close> of \<open>SessionAcc._on_exec_message\<close>: the state it leaves and the
  exception it raises, if any; \<open>None\<close> when the matching loop never exits.
\<close>

definition sa_exec_try ::
  "'f builtins \<Rightarrow> 'f sessionacc \<Rightarrow> exec_ev message \<Rightarrow> ('f sessionacc \<times> exn option) option" where
  "sa_exec_try B st msg =
     (case subscript (m_topic msg) of Inl x \<Rightarrow> Some (st, Some x)
      | Inr t \<Rightarrow>
          if t \<noteq> sa_topic st then Some (st, None)
          else
     (case subscript (m_data msg) of Inl x \<Rightarrow> Some (st, Some x)
      | Inr es \<Rightarrow>
     (case py_any (tracked (sa_symbol st) (sa_category st)) es of Inl x \<Rightarrow> Some (st, Some x)
      | Inr False \<Rightarrow> Some (st, None)
      | Inr True \<Rightarrow>
     (case py_filter (tracked (sa_symbol st) (sa_category st)) es of Inl x \<Rightarrow> Some (st, Some x)
      | Inr fs \<Rightarrow>
     (case py_sorted (exec_key B) fs of Inl x \<Rightarrow> Some (st, Some x)
      | Inr data \<Rightarrow>
     (case append_fills B st data of
        (st', Some x) \<Rightarrow> Some (st', Some x)
      | (st', None) \<Rightarrow>
          (case match_loop B st' of None \<Rightarrow> None | Some st'' \<Rightarrow> Some (st'', None))))))))"

text \<open>\<open>SessionAcc._on_exec_message\<close>. Only KeyError is caught.\<close>

definition sa_on_exec_message ::
  "'f builtins \<Rightarrow> 'f sessionacc \<Rightarrow> exec_ev message \<Rightarrow> ('f sessionacc \<times> exn option) option" where
  "sa_on_exec_message B st msg =
     (case sa_exec_try B st msg of
        Some (st', Some KeyError) \<Rightarrow>
          Some (st', on_failure msg (sa_topic st @ '' websocket not connected.''))
      | r \<Rightarrow> r)"

section \<open>The process: clock and module globals\<close>

text \<open>
  Values of keyword arguments (\<open>Dict[str, Any]\<close>): the strings, ints and floats an order
  request carries. As dictionary keys they are compared structurally; Python's \<open>==\<close>
  differs only in equating an int with the float of the same value.
\<close>

datatype 'f pyval = PStr string | PInt int | PFloat 'f


text \<open>\<open>str(i)\<close> on an int is the decimal numeral.\<close>

fun str_nat :: "nat \<Rightarrow> string" where
  "str_nat n = (if n < 10 then [''0123456789'' ! n]
                else str_nat (n div 10) @ [''0123456789'' ! (n mod 10)])"

declare str_nat.simps [simp del]

definition str_int :: "int \<Rightarrow> string" where
  "str_int i = (if i < 0 then CHR ''-'' # str_nat (nat (- i)) else str_nat (nat i))"


record order_ev = wire_ev +
  o_updatedTime :: "string option"
  o_orderLinkId :: "string option"
  o_orderStatus :: "string option"
  o_leavesQty :: "string option"
  o_orderId :: "string option"

text \<open>The JSON object sent over the trade channel: the two header fields, op and args[0].\<close>

record 'f request =
  rq_timestamp :: string
  rq_recv_window :: string
  rq_op :: string
  rq_args :: "(string \<times> 'f pyval) list"

text \<open>
  The engine. A connection handle is modelled by the list of messages sent on it. The
  link-id keys of the two dictionaries are Python values, as \<open>create_order\<close> takes them
  from its keyword arguments; an order update carries a string. The fields are those the
  methods modelled here read or write.
\<close>

record 'f oms =
  oms_symbol :: string
  oms_category :: string
  oms_position_event :: bool
  oms_websockets :: "(string \<times> 'f request list) list"
  oms_uuid :: string
  oms_order_link_id_n :: int
  oms_order_status :: "('f pyval \<times> string) list"
  oms_active_orders :: "('f pyval \<times> order_ev) list"
  oms_fe :: string

text \<open>
  The process: the module global \<open>API_RATE\<close> of oms.py, the global list \<open>_calls\<close> of
  throttle.py, the number of times \<open>time()\<close> has been read, and the engine. The clock is a
  parameter: the n-th reading of \<open>time()\<close> returns \<open>clk n\<close>.
\<close>

record 'f world =
  w_API_RATE :: int
  w_calls :: "'f list"
  w_ticks :: nat
  w_oms :: "'f oms"

section \<open>throttle.py\<close>




section \<open>Oms: order management\<close>

text \<open>
  \<open>Oms.__init__\<close>: it assigns the global \<open>API_RATE\<close> and builds the engine. \<open>uuid\<close> is the
  10 characters kept of the random identifier.
\<close>

definition Oms_init :: "string \<Rightarrow> string \<Rightarrow> int \<Rightarrow> string \<Rightarrow> 'f world \<Rightarrow> 'f world" where
  "Oms_init symbol category api_rate uuid w =
     w\<lparr> w_API_RATE := api_rate,
        w_oms := \<lparr> oms_symbol = symbol, oms_category = category, oms_position_event = False,
                   oms_websockets = [], oms_uuid = uuid, oms_order_link_id_n = 0,
                   oms_order_status = [], oms_active_orders = [],
                   oms_fe = ''execution.fast.'' @ category \<rparr> \<rparr>"

text \<open>\<open>self._websockets["trade"].send(dumps(order))\<close>\<close>

definition send_trade :: "'f request \<Rightarrow> 'f oms \<Rightarrow> exn + 'f oms" where
  "send_trade rq s =
     (case subscript (map_of (oms_websockets s) ''trade'') of
        Inl x \<Rightarrow> Inl x
      | Inr sent \<Rightarrow>
          Inr (s\<lparr>oms_websockets := AList.update ''trade'' (sent @ [rq]) (oms_websockets s)\<rparr>))"

text \<open>\<open>str(int(time()*1000))\<close> for the time \<open>t\<close> read.\<close>

definition header_timestamp :: "'f builtins \<Rightarrow> 'f \<Rightarrow> exn + string" where
  "header_timestamp B t =
     (case int_float B (fmul B t (float_int B 1000)) of
        Inl x \<Rightarrow> Inl x | Inr i \<Rightarrow> Inr (str_int i))"





text \<open>
  The body of \<open>Oms.cancel_order\<close>. The category and the symbol of the request are the
  literals of the source. A KeyError of the \<open>try\<close> is swallowed; any other exception
  leaves the method.
\<close>

definition cancel_order_body ::
  "'f builtins \<Rightarrow> (nat \<Rightarrow> 'f) \<Rightarrow> 'f pyval \<Rightarrow> 'f world \<Rightarrow> 'f world \<times> exn option" where
  "cancel_order_body B clk order_link_id w =
     (let s = w_oms w
      in case subscript (map_of (oms_active_orders s) order_link_id) of
           Inl x \<Rightarrow> (w, None)
         | Inr ord \<Rightarrow>
        (case subscript (o_orderId ord) of
           Inl x \<Rightarrow> (w, None)
         | Inr orderId \<Rightarrow>
             (let w1 = w\<lparr>w_ticks := Suc (w_ticks w)\<rparr>
              in case header_timestamp B (clk (w_ticks w)) of
                   Inl KeyError \<Rightarrow> (w1, None)
                 | Inl x \<Rightarrow> (w1, Some x)
                 | Inr ts \<Rightarrow>
                (case send_trade \<lparr> rq_timestamp = ts, rq_recv_window = ''8000'',
                                   rq_op = ''order.cancel'',
                                   rq_args = [(''category'', PStr ''linear''),
                                              (''symbol'', PStr ''ADAUSDT''),
                                              (''orderId'', PStr orderId)] \<rparr> s of
                   Inl x \<Rightarrow> (w1, None)
                 | Inr s' \<Rightarrow> (w1\<lparr>w_oms := s'\<rparr>, None)))))"


text \<open>\<open>Oms.order_status\<close>: a plain subscript of the status dictionary.\<close>

definition order_status :: "'f oms \<Rightarrow> 'f pyval \<Rightarrow> exn + string" where
  "order_status s order_link_id = subscript (map_of (oms_order_status s) order_link_id)"





section \<open>The order stream\<close>






section \<open>Assumptions on the environment, and a concrete instance\<close>


text \<open>
  An instance of the built-ins for concrete runs: exact arithmetic on real numbers. It
  agrees with the doubles of the language wherever every value of the run is an integer
  of small magnitude, which is the case in the runs below. The clock reads 0, 1, 2, ...
  seconds.
\<close>

definition ex_builtins :: "real builtins" where
  "ex_builtins =
     \<lparr> float_str = map_of [(''0'', 0), (''1'', 1), (''2'', 2), (''100'', 100), (''150'', 150),
                            (''200'', 200)],
       int_str = map_of [(''1'', 1), (''2'', 2), (''3'', 3)],
       fzero = 0, fadd = (+), fsub = (-), fmul = (*), flt = (<),
       fge0 = (\<lambda>a. 0 \<le> a), feq0 = (\<lambda>a. a = 0),
       int_truediv = (\<lambda>a b. real_of_int a / real_of_int b),
       float_int = real_of_int,
       int_float = (\<lambda>a. Inr (if 0 \<le> a then \<lfloor>a\<rfloor> else \<lceil>a\<rceil>)),
       fle1 = (\<lambda>a. a \<le> 1) \<rparr>"




section \<open>Well-formed order updates\<close>











section \<open>Well-formed executions and runs of the accounting engine\<close>



definition exec_msg :: "string \<Rightarrow> exec_ev list \<Rightarrow> exec_ev message" where
  "exec_msg t es = \<lparr> m_topic = Some t, m_data = Some es, m_success = None \<rparr>"


fun sa_feed :: "'f builtins \<Rightarrow> 'f sessionacc \<Rightarrow> exec_ev message list \<Rightarrow> 'f sessionacc option" where
  "sa_feed B st [] = Some st"
| "sa_feed B st (m # ms) =
     (case sa_on_exec_message B st m of None \<Rightarrow> None | Some (st', x) \<Rightarrow> sa_feed B st' ms)"

definition same_config :: "'f sessionacc \<Rightarrow> 'f sessionacc \<Rightarrow> bool" where
  "same_config st st' =
     (sa_symbol st' = sa_symbol st \<and> sa_category st' = sa_category st
      \<and> sa_maker st' = sa_maker st \<and> sa_taker st' = sa_taker st \<and> sa_topic st' = sa_topic st)"

text \<open>A fee-free accounting engine for BTCUSDT/spot, and its executions of one unit.\<close>

definition ex_exec :: "string \<Rightarrow> string \<Rightarrow> string \<Rightarrow> string \<Rightarrow> exec_ev" where
  "ex_exec t side p q =
     \<lparr> w_symbol = Some ''BTCUSDT'', w_category = Some ''spot'', e_execTime = Some t,
       e_side = Some side, e_execPrice = Some p, e_execQty = Some q, e_isMaker = Some False \<rparr>"


section \<open>Positive quantities\<close>

text \<open>
  \<open>pos_arith B P\<close>: \<open>P\<close> is a class of positive quantities on which the float subtraction
  behaves as it does on the finite doubles greater than zero. Every member compares
  \<open>>= 0\<close> and not \<open>== 0\<close>; a member minus itself compares equal to zero; and the
  difference of two members, the smaller taken from the larger, compares equal to zero
  or is again a member. \<open>pos_msg\<close>: every fill of the message has its quantity in \<open>P\<close>.
  \<open>sa_processed\<close>: the message is a batch for this engine, and the handler ran through
  the matching loop without raising.
\<close>

definition pos_arith :: "'f builtins \<Rightarrow> ('f \<Rightarrow> bool) \<Rightarrow> bool" where
  "pos_arith B P =
     ((\<forall>a. P a \<longrightarrow> fge0 B a \<and> \<not> feq0 B a)
      \<and> (\<forall>a b. P a \<and> P b \<and> flt B b a \<longrightarrow>
             feq0 B (fsub B b b) \<and> (feq0 B (fsub B a b) \<or> P (fsub B a b)))
      \<and> (\<forall>a b. P a \<and> P b \<and> \<not> flt B b a \<longrightarrow>
             feq0 B (fsub B a a) \<and> (feq0 B (fsub B b a) \<or> P (fsub B b a))))"

definition pos_queues :: "('f \<Rightarrow> bool) \<Rightarrow> 'f sessionacc \<Rightarrow> bool" where
  "pos_queues P st = (list_all (\<lambda>f. P (qty f)) (sa_buys st) \<and> list_all (\<lambda>f. P (qty f)) (sa_sells st))"

definition pos_ev :: "'f builtins \<Rightarrow> ('f \<Rightarrow> bool) \<Rightarrow> exec_ev \<Rightarrow> bool" where
  "pos_ev B P e = (case to_fill B e of Inl _ \<Rightarrow> True | Inr (_, f) \<Rightarrow> P (qty f))"

definition pos_msg :: "'f builtins \<Rightarrow> ('f \<Rightarrow> bool) \<Rightarrow> exec_ev message \<Rightarrow> bool" where
  "pos_msg B P msg = (case m_data msg of None \<Rightarrow> True | Some es \<Rightarrow> list_all (pos_ev B P) es)"

definition sa_processed :: "'f builtins \<Rightarrow> 'f sessionacc \<Rightarrow> exec_ev message \<Rightarrow> bool" where
  "sa_processed B st msg =
     (m_topic msg = Some (sa_topic st)
      \<and> (case m_data msg of None \<Rightarrow> False
         | Some es \<Rightarrow> py_any (tracked (sa_symbol st) (sa_category st)) es = Inr True)
      \<and> (case sa_exec_try B st msg of Some (st', None) \<Rightarrow> True | _ \<Rightarrow> False))"

section \<open>Properties of the accounting engine\<close>

text \<open>
  C8. The win-rate accessor returns wins divided by the matched-trade count, as Python's
  true division of the two ints computes it, when the count is non-zero, and Python's
  None, not an exception, when the count is zero.
\<close>

theorem win_rate_result:
  "win_rate B st =
     Inr (if sa_n_matched st = 0 then None
          else Some (int_truediv B (sa_wins st) (sa_n_matched st)))"
  by (simp add: win_rate_def py_truediv_def)

text \<open>
  C2. A full match of a buy fill (price pb, quantity Q, maker flag mb) at the head of the
  buy queue against a sell fill (price ps, quantity Q, maker flag ms) at the head of the
  sell queue adds Q*ps - Q*pb - Q*pb*feeRate(mb) - Q*ps*feeRate(ms) to the realized PnL,
  each operation being the float operation of the language in the order the source
  applies it; it increments the matched-trade counter by one, and increments the win
  counter exactly when that net profit is at least 0.
\<close>

theorem full_match_net_profit:
  "(let st' = match_step B (st\<lparr> sa_buys := \<lparr>price = pb, qty = Q, isMaker = mb\<rparr> # bs,
                                 sa_sells := \<lparr>price = ps, qty = Q, isMaker = ms\<rparr> # ss \<rparr>);
        feeRate = (\<lambda>m. if m then sa_maker st else sa_taker st);
        net = fsub B (fsub B (fsub B (fmul B Q ps) (fmul B Q pb))
                             (fmul B (fmul B Q pb) (feeRate mb)))
                     (fmul B (fmul B Q ps) (feeRate ms))
    in sa_pnl st' = fadd B (sa_pnl st) net
       \<and> sa_n_matched st' = sa_n_matched st + 1
       \<and> sa_wins st' = (if fge0 B net then sa_wins st + 1 else sa_wins st))"
  by (simp add: match_step_def py_min_def Let_def)

section \<open>The throttle returns\<close>








text \<open>
  C4 (the claim: for every link-id not known to the engine, cancel_order is a no-op and
  order_status returns an empty result, neither raising). On an engine that knows no
  link-id at all, \<open>order_status\<close> raises KeyError for every link-id, while the body of
  \<open>cancel_order\<close> leaves the process unchanged and raises nothing.
\<close>

theorem order_status_unknown_raises:
  "order_status (w_oms (Oms_init symbol category api_rate uuid w)) l = Inl KeyError
   \<and> cancel_order_body B clk l (Oms_init symbol category api_rate uuid w)
       = (Oms_init symbol category api_rate uuid w, None)"
  by (simp add: order_status_def cancel_order_body_def Oms_init_def subscript_def)











section \<open>The order stream keeps the active-order set\<close>

















section \<open>Batches of executions\<close>


lemma same_config_refl [simp]: "same_config st st"
  by (simp add: same_config_def)



lemma match_loop_go:
  "sa_buys st \<noteq> [] \<Longrightarrow> sa_sells st \<noteq> [] \<Longrightarrow> match_loop B st = match_loop B (match_step B st)"
  by (subst match_loop.simps) simp

lemma match_loop_stop:
  "sa_buys st = [] \<or> sa_sells st = [] \<Longrightarrow> match_loop B st = Some st"
  by (subst match_loop.simps) auto

lemma match_loop_go':
  "sa_buys st \<noteq> [] \<Longrightarrow> sa_sells st \<noteq> [] \<Longrightarrow> match_loop B st = Some r
   \<Longrightarrow> match_loop B (match_step B st) = Some r"
  by (subst (asm) match_loop.simps) simp


lemma match_loop_exit:
  assumes "match_loop B st = Some st'"
  shows "sa_buys st' = [] \<or> sa_sells st' = []"
  using assms
proof (induction rule: match_loop.raw_induct [rotated 1, consumes 1])
  case (1 loop B st st')
  show ?case
  proof (cases "sa_buys st \<noteq> [] \<and> sa_sells st \<noteq> []")
    case True
    have a: "loop B (match_step B st) = Some st'" using 1(2) True by simp
    from 1(1) [OF a] show ?thesis .
  next
    case False
    with 1(2) show ?thesis by auto
  qed
qed



























section \<open>The queues after a batch\<close>

lemma match_step_pos:
  assumes "pos_arith B P" "pos_queues P st" "sa_buys st \<noteq> []" "sa_sells st \<noteq> []"
  shows "pos_queues P (match_step B st)
         \<and> length (sa_buys (match_step B st)) + length (sa_sells (match_step B st))
             < length (sa_buys st) + length (sa_sells st)"
proof -
  obtain b bs where b: "sa_buys st = b # bs" using assms(3) by (cases "sa_buys st") auto
  obtain s ss where s: "sa_sells st = s # ss" using assms(4) by (cases "sa_sells st") auto
  have P: "P (qty b)" "P (qty s)" "list_all (\<lambda>f. P (qty f)) bs" "list_all (\<lambda>f. P (qty f)) ss"
    using assms(2) b s by (simp_all add: pos_queues_def)
  show ?thesis
  proof (cases "flt B (qty s) (qty b)")
    case True
    with assms(1) P have "feq0 B (fsub B (qty s) (qty s))"
      "feq0 B (fsub B (qty b) (qty s)) \<or> P (fsub B (qty b) (qty s))"
      unfolding pos_arith_def by blast+
    with True P show ?thesis
      by (auto simp: match_step_def b s py_min_def Let_def pos_queues_def)
  next
    case False
    with assms(1) P have "feq0 B (fsub B (qty b) (qty b))"
      "feq0 B (fsub B (qty s) (qty b)) \<or> P (fsub B (qty s) (qty b))"
      unfolding pos_arith_def by blast+
    with False P show ?thesis
      by (auto simp: match_step_def b s py_min_def Let_def pos_queues_def)
  qed
qed

lemma match_loop_pos:
  assumes "pos_arith B P"
  shows "pos_queues P st \<Longrightarrow>
         \<exists>st'. match_loop B st = Some st' \<and> pos_queues P st'
                \<and> (sa_buys st' = [] \<or> sa_sells st' = [])"
proof (induction "length (sa_buys st) + length (sa_sells st)" arbitrary: st rule: less_induct)
  case less
  show ?case
  proof (cases "sa_buys st \<noteq> [] \<and> sa_sells st \<noteq> []")
    case True
    from match_step_pos [OF assms less.prems] True
    have p: "pos_queues P (match_step B st)"
      and d: "length (sa_buys (match_step B st)) + length (sa_sells (match_step B st))
               < length (sa_buys st) + length (sa_sells st)" by simp_all
    from less.hyps [OF d p] True show ?thesis by (simp add: match_loop_go)
  next
    case False
    with less.prems show ?thesis by (auto simp: match_loop_stop)
  qed
qed

lemma append_fills_pos:
  "pos_queues P st \<Longrightarrow> \<forall>e\<in>set es. pos_ev B P e \<Longrightarrow> pos_queues P (fst (append_fills B st es))"
proof (induction es arbitrary: st)
  case Nil then show ?case by simp
next
  case (Cons e es)
  show ?case
  proof (cases "to_fill B e")
    case (Inl x) with Cons.prems show ?thesis by simp
  next
    case (Inr p)
    obtain b f where p: "p = (b, f)" by (cases p)
    let ?s = "if b then st\<lparr>sa_buys := sa_buys st @ [f]\<rparr> else st\<lparr>sa_sells := sa_sells st @ [f]\<rparr>"
    from Cons.prems Inr p have "P (qty f)" by (simp add: pos_ev_def)
    with Cons.prems(1) have "pos_queues P ?s" by (simp add: pos_queues_def)
    with Cons.prems(2) have "pos_queues P (fst (append_fills B ?s es))" by (intro Cons.IH) simp_all
    with Inr p show ?thesis by simp
  qed
qed

lemma py_filter_set: "py_filter p xs = Inr ys \<Longrightarrow> set ys \<subseteq> set xs"
  by (induction xs arbitrary: ys) (auto split: sum.splits if_splits)

lemma py_map_length: "py_map k xs = Inr ks \<Longrightarrow> length ks = length xs"
  by (induction xs arbitrary: ks) (auto split: sum.splits)

lemma py_sorted_set: "py_sorted k xs = Inr ys \<Longrightarrow> set ys = set xs"
proof -
  assume a: "py_sorted k xs = Inr ys"
  then obtain ks where ks: "py_map k xs = Inr ks" and ys: "ys = map snd (sort_key fst (zip ks xs))"
    by (auto simp: py_sorted_def split: sum.splits)
  have "length ks = length xs" using ks by (rule py_map_length)
  then have "snd ` set (zip ks xs) = set xs" by (metis map_snd_zip set_map)
  then show ?thesis using ys by simp
qed

lemma sa_exec_try_cases:
  "sa_exec_try B st msg = Some (st, snd (the (sa_exec_try B st msg)))
     \<and> \<not> sa_processed B st msg
   \<or> (\<exists>es fs data.
        m_topic msg = Some (sa_topic st) \<and> m_data msg = Some es
        \<and> py_any (tracked (sa_symbol st) (sa_category st)) es = Inr True
        \<and> py_filter (tracked (sa_symbol st) (sa_category st)) es = Inr fs
        \<and> py_sorted (exec_key B) fs = Inr data
        \<and> sa_exec_try B st msg =
             (case append_fills B st data of
                (st', Some x) \<Rightarrow> Some (st', Some x)
              | (st', None) \<Rightarrow>
                  (case match_loop B st' of None \<Rightarrow> None | Some st'' \<Rightarrow> Some (st'', None))))"
proof (cases "m_topic msg = Some (sa_topic st)")
  case False
  then show ?thesis
    by (auto simp: sa_exec_try_def sa_processed_def subscript_def split: option.splits)
next
  case topic: True
  show ?thesis
  proof (cases "m_data msg")
    case None
    with topic show ?thesis by (simp add: sa_exec_try_def sa_processed_def subscript_def)
  next
    case (Some es)
    let ?p = "tracked (sa_symbol st) (sa_category st)"
    show ?thesis
    proof (cases "py_any ?p es = Inr True")
      case False
      with topic Some show ?thesis
        by (auto simp: sa_exec_try_def sa_processed_def subscript_def split: sum.splits bool.splits)
    next
      case any: True
      show ?thesis
      proof (cases "py_filter ?p es")
        case (Inl x)
        with topic Some any show ?thesis
          by (simp add: sa_exec_try_def sa_processed_def subscript_def)
      next
        case (Inr fs)
        show ?thesis
        proof (cases "py_sorted (exec_key B) fs")
          case (Inl x)
          with topic Some any Inr show ?thesis
            by (simp add: sa_exec_try_def sa_processed_def subscript_def)
        next
          case data: (Inr data)
          with topic Some any Inr show ?thesis
            by (simp add: sa_exec_try_def subscript_def)
        qed
      qed
    qed
  qed
qed

lemma sa_on_exec_message_pos:
  assumes ar: "pos_arith B P" and pq: "pos_queues P st" and pm: "pos_msg B P msg"
  shows "\<exists>st' x. sa_on_exec_message B st msg = Some (st', x) \<and> pos_queues P st'
           \<and> (if sa_processed B st msg then sa_buys st' = [] \<or> sa_sells st' = [] else True)"
  using sa_exec_try_cases [of B st msg]
proof (elim disjE exE conjE)
  assume a: "sa_exec_try B st msg = Some (st, snd (the (sa_exec_try B st msg)))"
     and n: "\<not> sa_processed B st msg"
  have "\<exists>x. sa_on_exec_message B st msg = Some (st, x)"
    unfolding sa_on_exec_message_def by (subst a) (auto split: option.splits exn.splits)
  with pq n show ?thesis by auto
next
  fix es fs data
  assume t: "m_topic msg = Some (sa_topic st)" and d: "m_data msg = Some es"
     and any: "py_any (tracked (sa_symbol st) (sa_category st)) es = Inr True"
     and f: "py_filter (tracked (sa_symbol st) (sa_category st)) es = Inr fs"
     and s: "py_sorted (exec_key B) fs = Inr data"
     and r: "sa_exec_try B st msg =
             (case append_fills B st data of
                (st', Some x) \<Rightarrow> Some (st', Some x)
              | (st', None) \<Rightarrow>
                  (case match_loop B st' of None \<Rightarrow> None | Some st'' \<Rightarrow> Some (st'', None)))"
  from d pm have "\<forall>e\<in>set es. pos_ev B P e" by (simp add: pos_msg_def list_all_iff)
  with py_filter_set [OF f] py_sorted_set [OF s] have "\<forall>e\<in>set data. pos_ev B P e" by auto
  with pq have p1: "pos_queues P (fst (append_fills B st data))" by (rule append_fills_pos)
  obtain s1 xo where ap: "append_fills B st data = (s1, xo)" by (cases "append_fills B st data")
  show ?thesis
  proof (cases xo)
    case (Some x)
    with r ap have tr: "sa_exec_try B st msg = Some (s1, Some x)" by simp
    then have "\<not> sa_processed B st msg" by (simp add: sa_processed_def)
    moreover have "\<exists>y. sa_on_exec_message B st msg = Some (s1, y)"
      unfolding sa_on_exec_message_def by (subst tr) (auto split: exn.splits)
    ultimately show ?thesis using p1 ap by auto
  next
    case None
    from match_loop_pos [OF ar, of s1] p1 ap
    obtain st' where ml: "match_loop B s1 = Some st'" and p: "pos_queues P st'"
      and ex: "sa_buys st' = [] \<or> sa_sells st' = []" by auto
    with r ap None have tr: "sa_exec_try B st msg = Some (st', None)" by simp
    have "sa_on_exec_message B st msg = Some (st', None)"
      unfolding sa_on_exec_message_def by (subst tr) simp
    with p ex show ?thesis by auto
  qed
qed

lemma sa_feed_pos:
  assumes "pos_arith B P"
  shows "pos_queues P st \<Longrightarrow> \<forall>m\<in>set msgs. pos_msg B P m
         \<Longrightarrow> \<exists>st'. sa_feed B st msgs = Some st' \<and> pos_queues P st'"
proof (induction msgs arbitrary: st)
  case Nil
  then show ?case by simp
next
  case (Cons m ms)
  from sa_on_exec_message_pos [OF assms Cons.prems(1), of m] Cons.prems(2)
  obtain s1 x where h: "sa_on_exec_message B st m = Some (s1, x)" and p: "pos_queues P s1"
    by auto
  from Cons.IH [OF p] Cons.prems(2) h show ?case by simp
qed

text \<open>
  C6. For every sequence of messages whose fills have positive quantities, the engine
  started empty returns from every message, and after each message every fill left in
  the two queues, the heads in particular, has a remaining quantity greater than zero
  (\<open>>= 0\<close> and not \<open>== 0\<close>); after each batch that was fully processed, at least one of
  the two queues is empty.
\<close>

theorem queues_after_batch:
  assumes "pos_arith B P"
      and "list_all (pos_msg B P) (msgs @ [msg])"
  shows "\<exists>st st' x.
           sa_feed B (SessionAcc_init B symbol category maker taker) msgs = Some st
           \<and> sa_on_exec_message B st msg = Some (st', x)
           \<and> list_all (\<lambda>f. fge0 B (qty f) \<and> \<not> feq0 B (qty f)) (sa_buys st')
           \<and> list_all (\<lambda>f. fge0 B (qty f) \<and> \<not> feq0 B (qty f)) (sa_sells st')
           \<and> (if sa_processed B st msg then sa_buys st' = [] \<or> sa_sells st' = [] else True)"
proof -
  have init: "pos_queues P (SessionAcc_init B symbol category maker taker)"
    by (simp add: pos_queues_def SessionAcc_init_def)
  have ms: "\<forall>m\<in>set msgs. pos_msg B P m" and m: "pos_msg B P msg"
    using assms(2) by (simp_all add: list_all_iff)
  from sa_feed_pos [OF assms(1) init ms]
  obtain st where f: "sa_feed B (SessionAcc_init B symbol category maker taker) msgs = Some st"
    and p: "pos_queues P st" by auto
  from sa_on_exec_message_pos [OF assms(1) p m]
  obtain st' x where h: "sa_on_exec_message B st msg = Some (st', x)" and p': "pos_queues P st'"
    and e: "if sa_processed B st msg then sa_buys st' = [] \<or> sa_sells st' = [] else True"
    by blast
  have gt: "list_all (\<lambda>f. P (qty f)) xs \<Longrightarrow> list_all (\<lambda>f. fge0 B (qty f) \<and> \<not> feq0 B (qty f)) xs"
    for xs :: "'a fill list"
    using assms(1) by (auto simp: pos_arith_def list_all_iff)
  from p' have "list_all (\<lambda>f. fge0 B (qty f) \<and> \<not> feq0 B (qty f)) (sa_buys st')"
    "list_all (\<lambda>f. fge0 B (qty f) \<and> \<not> feq0 B (qty f)) (sa_sells st')"
    by (simp_all add: pos_queues_def gt)
  with f h e show ?thesis by blast
qed

lemma ex_pos_arith: "pos_arith ex_builtins (\<lambda>x. 0 < x)"
  by (auto simp: pos_arith_def ex_builtins_def)

lemma ex_pos_ev: "p \<in> {''100'', ''150'', ''200''} \<Longrightarrow> pos_ev ex_builtins (\<lambda>x. 0 < x) (ex_exec t side p ''1'')"
  by (auto simp: pos_ev_def to_fill_def ex_exec_def subscript_def py_float_str_def ex_builtins_def)

theorem queues_after_batch_witness:
  "pos_arith ex_builtins (\<lambda>x. 0 < x)
   \<and> list_all (pos_msg ex_builtins (\<lambda>x. 0 < x))
        ([exec_msg ''execution.fast.spot'' [ex_exec ''1'' ''Buy'' ''100'' ''1'']]
          @ [exec_msg ''execution.fast.spot'' [ex_exec ''3'' ''Sell'' ''150'' ''1'']])
   \<and> (\<exists>st st' x.
         sa_feed ex_builtins (SessionAcc_init ex_builtins ''BTCUSDT'' ''spot'' 0 0)
           [exec_msg ''execution.fast.spot'' [ex_exec ''1'' ''Buy'' ''100'' ''1'']] = Some st
         \<and> sa_on_exec_message ex_builtins st
             (exec_msg ''execution.fast.spot'' [ex_exec ''3'' ''Sell'' ''150'' ''1'']) = Some (st', x)
         \<and> list_all (\<lambda>f. fge0 ex_builtins (qty f) \<and> \<not> feq0 ex_builtins (qty f)) (sa_buys st')
         \<and> list_all (\<lambda>f. fge0 ex_builtins (qty f) \<and> \<not> feq0 ex_builtins (qty f)) (sa_sells st')
         \<and> (if sa_processed ex_builtins st
                  (exec_msg ''execution.fast.spot'' [ex_exec ''3'' ''Sell'' ''150'' ''1''])
             then sa_buys st' = [] \<or> sa_sells st' = [] else True))"
proof -
  have h2: "list_all (pos_msg ex_builtins (\<lambda>x. 0 < x))
        ([exec_msg ''execution.fast.spot'' [ex_exec ''1'' ''Buy'' ''100'' ''1'']]
          @ [exec_msg ''execution.fast.spot'' [ex_exec ''3'' ''Sell'' ''150'' ''1'']])"
    by (simp add: pos_msg_def exec_msg_def ex_pos_ev)
  show ?thesis
    by (intro conjI ex_pos_arith h2 queues_after_batch [OF ex_pos_arith h2])
qed

end
